theory Spec2Isabelle
  imports Complex_Main "HOL-Library.Sublist" "HOL-Library.Word"
begin

section \<open>The loaded table\<close>

text \<open>
  \<^verbatim>\<open>app.py\<close> loads one pandas table at import time (\<^verbatim>\<open>df\<close>, wrapped as the
  GeoDataFrame \<^verbatim>\<open>gdf\<close>) and never writes to it again. A row carries the columns
  \<^verbatim>\<open>City, WARD, Area, Date, PM2.5, geometry\<close>. After line 16 the \<^verbatim>\<open>Date\<close> column holds
  calendar dates; after line 19 the \<^verbatim>\<open>geometry\<close> column holds parsed shapes, which are kept
  abstract here (type variable \<open>'g\<close>). Floating-point columns are idealised as reals.

  A pandas table is a sequence of rows, each with an index label that comes from the
  pickle. The labels are modelled as integers; nothing forces them to be \<open>0, 1, 2, \<dots>\<close>.
\<close>

record date =
  year :: int
  month :: int
  day :: int

record 'g row =
  City :: string
  WARD :: string
  Area :: string
  Date :: date
  PM25 :: real
  geometry :: 'g

type_synonym 'g table = "(int \<times> 'g row) list"

section \<open>Calendar arithmetic of the Python standard library\<close>

text \<open>
  \<^verbatim>\<open>pandas\<close>' \<^verbatim>\<open>.dt.dayofyear\<close> and \<^verbatim>\<open>datetime.date\<close> use the proleptic Gregorian
  calendar. The helpers follow \<^verbatim>\<open>Lib/_pydatetime.py\<close>, names kept.
\<close>

definition is_leap :: "int \<Rightarrow> bool" where
  "is_leap y \<longleftrightarrow> y mod 4 = 0 \<and> (y mod 100 \<noteq> 0 \<or> y mod 400 = 0)"

definition DAYS_IN_MONTH :: "int \<Rightarrow> int" where
  "DAYS_IN_MONTH m =
     (if m = 1 then 31 else if m = 2 then 28 else if m = 3 then 31 else if m = 4 then 30
      else if m = 5 then 31 else if m = 6 then 30 else if m = 7 then 31 else if m = 8 then 31
      else if m = 9 then 30 else if m = 10 then 31 else if m = 11 then 30 else if m = 12 then 31
      else -1)"

definition DAYS_BEFORE_MONTH :: "int \<Rightarrow> int" where
  "DAYS_BEFORE_MONTH m =
     (if m = 1 then 0 else if m = 2 then 31 else if m = 3 then 59 else if m = 4 then 90
      else if m = 5 then 120 else if m = 6 then 151 else if m = 7 then 181 else if m = 8 then 212
      else if m = 9 then 243 else if m = 10 then 273 else if m = 11 then 304 else if m = 12 then 334
      else -1)"

definition days_in_month :: "int \<Rightarrow> int \<Rightarrow> int" where
  "days_in_month y m = (if m = 2 \<and> is_leap y then 29 else DAYS_IN_MONTH m)"

definition days_before_month :: "int \<Rightarrow> int \<Rightarrow> int" where
  "days_before_month y m = DAYS_BEFORE_MONTH m + (if m > 2 \<and> is_leap y then 1 else 0)"

definition days_before_year :: "int \<Rightarrow> int" where
  "days_before_year y = (y - 1) * 365 + (y - 1) div 4 - (y - 1) div 100 + (y - 1) div 400"

definition ymd2ord :: "date \<Rightarrow> int" where
  "ymd2ord dt = days_before_year (year dt) + days_before_month (year dt) (month dt) + day dt"

text \<open>\<^verbatim>\<open>Series.dt.dayofyear\<close>: the ordinal day inside the date's own year, 1-based.\<close>

definition dayofyear :: "date \<Rightarrow> int" where
  "dayofyear dt = days_before_month (year dt) (month dt) + day dt"

section \<open>The filter of \<^verbatim>\<open>update_graph\<close> (line 125)\<close>

text \<open>
  \<^verbatim>\<open>gdf[(gdf['City'] == selected_city) & (gdf['Date'].dt.dayofyear == selected_day)]\<close>

  pandas evaluates this in four steps: two element-wise comparisons that each give a
  boolean column, their element-wise conjunction, and boolean-mask indexing, which keeps
  the rows (with their index labels) at the positions where the mask is true. The mask is
  built from \<^verbatim>\<open>gdf\<close>'s own columns, so it has \<^verbatim>\<open>gdf\<close>'s index and is applied by position.
\<close>

definition City_eq :: "'g table \<Rightarrow> string \<Rightarrow> bool list" where
  "City_eq gdf selected_city = map (\<lambda>(i, r). City r = selected_city) gdf"

definition dayofyear_eq :: "'g table \<Rightarrow> int \<Rightarrow> bool list" where
  "dayofyear_eq gdf selected_day = map (\<lambda>(i, r). dayofyear (Date r) = selected_day) gdf"

definition mask_and :: "bool list \<Rightarrow> bool list \<Rightarrow> bool list" where
  "mask_and xs ys = map (\<lambda>(a, b). a \<and> b) (zip xs ys)"

definition bool_index :: "'g table \<Rightarrow> bool list \<Rightarrow> 'g table" where
  "bool_index gdf bs = map fst (filter snd (zip gdf bs))"

definition filtered_data :: "'g table \<Rightarrow> string \<Rightarrow> int \<Rightarrow> 'g table" where
  "filtered_data gdf selected_city selected_day =
     bool_index gdf (mask_and (City_eq gdf selected_city) (dayofyear_eq gdf selected_day))"

text \<open>The selection predicate of the specification, on one labelled row.\<close>

definition selected :: "string \<Rightarrow> int \<Rightarrow> int \<times> 'g row \<Rightarrow> bool" where
  "selected c d ir \<longleftrightarrow> City (snd ir) = c \<and> dayofyear (Date (snd ir)) = d"

section \<open>The date label of \<^verbatim>\<open>update_graph\<close> (line 145)\<close>

text \<open>
  \<^verbatim>\<open>(datetime.date(2023, 1, 1) + datetime.timedelta(days=selected_day - 1)).strftime('%b %d, %Y')\<close>

  \<^verbatim>\<open>timedelta\<close> refuses more than 999999999 days, and \<^verbatim>\<open>date.__add__\<close> refuses a result
  outside the years 1 to 9999; both raise \<^verbatim>\<open>OverflowError\<close>, which the callback does not
  catch. \<^verbatim>\<open>ord2ymd\<close> is the standard library's inverse of \<^verbatim>\<open>ymd2ord\<close>, with its
  successive \<^verbatim>\<open>divmod\<close>s.
\<close>

datatype error = OverflowError

definition MAXORDINAL :: int where
  "MAXORDINAL = 3652059"

definition ord2ymd :: "int \<Rightarrow> date" where
  "ord2ymd n0 =
     (let n = n0 - 1;
          n400 = n div 146097; n = n mod 146097;
          n100 = n div 36524; n = n mod 36524;
          n4 = n div 1461; n = n mod 1461;
          n1 = n div 365; n = n mod 365;
          y = n400 * 400 + 1 + (n100 * 100 + n4 * 4 + n1)
      in if n1 = 4 \<or> n100 = 4 then \<lparr>year = y - 1, month = 12, day = 31\<rparr>
         else
           let leapyear = (n1 = 3 \<and> (n4 \<noteq> 24 \<or> n100 = 3));
               m = (n + 50) div 32;
               preceding = DAYS_BEFORE_MONTH m + (if m > 2 \<and> leapyear then 1 else 0)
           in if preceding > n
              then let m' = m - 1;
                       preceding' = preceding - (DAYS_IN_MONTH m' + (if m' = 2 \<and> leapyear then 1 else 0))
                   in \<lparr>year = y, month = m', day = n - preceding' + 1\<rparr>
              else \<lparr>year = y, month = m, day = n - preceding + 1\<rparr>)"

definition timedelta :: "int \<Rightarrow> error + int" where
  "timedelta days = (if \<bar>days\<bar> > 999999999 then Inl OverflowError else Inr days)"

definition date_add :: "date \<Rightarrow> int \<Rightarrow> error + date" where
  "date_add dt days =
     (let ordinal = ymd2ord dt + days
      in if 0 < ordinal \<and> ordinal \<le> MAXORDINAL then Inr (ord2ymd ordinal) else Inl OverflowError)"

text \<open>Decimal digits, as Python's \<^verbatim>\<open>str\<close> of an integer writes them.\<close>

definition digit_char :: "nat \<Rightarrow> char" where
  "digit_char k = ''0123456789'' ! k"

fun digits :: "nat \<Rightarrow> string" where
  "digits n = (if n < 10 then [digit_char n] else digits (n div 10) @ [digit_char (n mod 10)])"

definition str_int :: "int \<Rightarrow> string" where
  "str_int i = (if i < 0 then CHR ''-'' # digits (nat (- i)) else digits (nat i))"

text \<open>
  \<^verbatim>\<open>%b\<close> is the abbreviated month name (the process runs in the C locale), \<^verbatim>\<open>%d\<close> the
  day of the month padded to two digits, \<^verbatim>\<open>%Y\<close> the year in decimal.
\<close>

definition month_abbr :: "int \<Rightarrow> string" where
  "month_abbr m =
     (if m = 1 then ''Jan'' else if m = 2 then ''Feb'' else if m = 3 then ''Mar''
      else if m = 4 then ''Apr'' else if m = 5 then ''May'' else if m = 6 then ''Jun''
      else if m = 7 then ''Jul'' else if m = 8 then ''Aug'' else if m = 9 then ''Sep''
      else if m = 10 then ''Oct'' else if m = 11 then ''Nov'' else ''Dec'')"

definition pad2 :: "int \<Rightarrow> string" where
  "pad2 d = (if d < 10 then CHR ''0'' # str_int d else str_int d)"

definition strftime :: "date \<Rightarrow> string" where
  "strftime dt = month_abbr (month dt) @ '' '' @ pad2 (day dt) @ '', '' @ str_int (year dt)"

definition selected_date :: "int \<Rightarrow> error + string" where
  "selected_date selected_day =
     (case timedelta (selected_day - 1) of
        Inl e \<Rightarrow> Inl e
      | Inr days \<Rightarrow>
          (case date_add \<lparr>year = 2023, month = 1, day = 1\<rparr> days of
             Inl e \<Rightarrow> Inl e
           | Inr dt \<Rightarrow> Inr (strftime dt)))"

section \<open>The map figure: \<^verbatim>\<open>generate_plot\<close> (lines 25 to 49)\<close>

text \<open>
  The figure that \<^verbatim>\<open>px.choropleth_mapbox\<close> is asked for, after the two
  \<^verbatim>\<open>update_traces\<close>/\<^verbatim>\<open>update_layout\<close> calls have overwritten the hover fields, the
  colour-bar switch and the margins. One field per keyword argument of the source.

  \<^verbatim>\<open>filtered_gdf.geometry.__geo_interface__\<close> is a feature collection with one feature
  per row, in row order; geopandas gives each feature the identifier \<^verbatim>\<open>str(label)\<close> of
  its row. \<^verbatim>\<open>locations=filtered_gdf.index\<close> is the sequence of the rows' index labels.

  The centre is the pandas \<^verbatim>\<open>mean()\<close> of the centroids' coordinates; the mean of an
  empty column is NaN, here \<open>None\<close>. The centroid of a shape is computed by the geometry
  library and is a parameter (\<open>x\<close> is the longitude, \<open>y\<close> the latitude).
\<close>

record 'g feature =
  feature_id :: string
  feature_geometry :: 'g

record margins =
  margin_r :: int
  margin_t :: int
  margin_l :: int
  margin_b :: int

record 'g figure =
  geojson :: "'g feature list"
  locations :: "int list"
  color :: "real list"
  color_continuous_scale :: string
  color_continuous_midpoint :: real
  range_color :: "real \<times> real"
  mapbox_style :: string
  zoom :: real
  center_lat :: "real option"
  center_lon :: "real option"
  opacity :: real
  labels :: "(string \<times> string) list"
  customdata :: "(string \<times> string \<times> real) list"
  hovertemplate :: string
  coloraxis_showscale :: bool
  margin :: margins

definition mean :: "real list \<Rightarrow> real option" where
  "mean xs = (if xs = [] then None else Some (sum_list xs / real (length xs)))"

definition geo_interface :: "'g table \<Rightarrow> 'g feature list" where
  "geo_interface filtered_gdf =
     map (\<lambda>(i, r). \<lparr>feature_id = str_int i, feature_geometry = geometry r\<rparr>) filtered_gdf"

definition generate_plot :: "('g \<Rightarrow> real \<times> real) \<Rightarrow> 'g table \<Rightarrow> 'g figure" where
  "generate_plot centroid filtered_gdf =
     \<lparr>geojson = geo_interface filtered_gdf,
      locations = map fst filtered_gdf,
      color = map (\<lambda>(i, r). PM25 r) filtered_gdf,
      color_continuous_scale = ''jet'',
      color_continuous_midpoint = 70,
      range_color = (20, 120),
      mapbox_style = ''open-street-map'',
      zoom = 10.6,
      center_lat = mean (map (\<lambda>(i, r). snd (centroid (geometry r))) filtered_gdf),
      center_lon = mean (map (\<lambda>(i, r). fst (centroid (geometry r))) filtered_gdf),
      opacity = 0.8,
      labels = [(''color'', ''PM2.5'')],
      customdata = map (\<lambda>(i, r). (WARD r, Area r, PM25 r)) filtered_gdf,
      hovertemplate =
        ''<b>Ward:</b> %{customdata[0]}<br><b>Area:</b> %{customdata[1]}<br><b>PM2.5:</b> %{customdata[2]:.2f}'',
      coloraxis_showscale = False,
      margin = \<lparr>margin_r = 5, margin_t = 5, margin_l = 10, margin_b = 0\<rparr>\<rparr>"

section \<open>The legend image of \<^verbatim>\<open>update_graph\<close> (lines 129 to 143)\<close>

text \<open>
  The colour bar is described to matplotlib by constants only. What matplotlib draws and
  how it compresses the PNG is not code of the application: \<open>savefig\<close> is a parameter
  that maps the description to the bytes written into the in-memory buffer.

  The label is written here as the code points of the Python string literal in the file
  (it holds U+00C2 and U+00B5 between the parenthesis and \<^verbatim>\<open>g/m3\<close>).
\<close>

record colorbar_figure =
  figsize :: "nat \<times> nat"
  dpi :: nat
  cmap :: string
  vmin :: real
  vmax :: real
  ax_visible :: bool
  extend_ends :: string
  label :: string
  orientation :: string
  format :: string
  bbox_inches :: string
  pad_inches :: real

definition fig_colorbar :: colorbar_figure where
  "fig_colorbar =
     \<lparr>figsize = (10, 6), dpi = 1200, cmap = ''jet'', vmin = 20, vmax = 120,
      ax_visible = False, extend_ends = ''both'',
      label = ''PM 2.5('' @ [CHR 0xC2, CHR 0xB5] @ ''g/m3)'',
      orientation = ''vertical'', format = ''png'', bbox_inches = ''tight'', pad_inches = 0\<rparr>"

text \<open>
  \<^verbatim>\<open>base64.b64encode\<close>: the bits of three bytes are regrouped into four groups of six,
  each written as one character of the alphabet; a tail of one or two bytes is padded
  with \<^verbatim>\<open>=\<close>.
\<close>

definition b64_alphabet :: string where
  "b64_alphabet = ''ABCDEFGHIJKLMNOPQRSTUVWXYZabcdefghijklmnopqrstuvwxyz0123456789+/''"

definition b64_char :: "nat \<Rightarrow> char" where
  "b64_char k = b64_alphabet ! k"

fun b64encode :: "8 word list \<Rightarrow> string" where
  "b64encode [] = []"
| "b64encode [a] =
     [b64_char (unat a div 4), b64_char (unat a mod 4 * 16), CHR ''='', CHR ''='']"
| "b64encode [a, b] =
     [b64_char (unat a div 4), b64_char (unat a mod 4 * 16 + unat b div 16),
      b64_char (unat b mod 16 * 4), CHR ''='']"
| "b64encode (a # b # c # bs) =
     [b64_char (unat a div 4), b64_char (unat a mod 4 * 16 + unat b div 16),
      b64_char (unat b mod 16 * 4 + unat c div 64), b64_char (unat c mod 64)] @ b64encode bs"

text \<open>
  The reader's side of a data URI, RFC 4648 decoding; it is not part of the application
  and only serves to state that the payload carries the whole image.
\<close>

definition b64_index :: "char \<Rightarrow> nat option" where
  "b64_index ch = map_of (zip b64_alphabet [0..<64]) ch"

fun b64decode :: "string \<Rightarrow> 8 word list option" where
  "b64decode [] = Some []"
| "b64decode (c1 # c2 # c3 # c4 # cs) =
     (case (b64_index c1, b64_index c2) of
        (Some s1, Some s2) \<Rightarrow>
          (if c3 = CHR ''='' then
             (if c4 = CHR ''='' \<and> cs = [] then Some [of_nat (s1 * 4 + s2 div 16)] else None)
           else
             (case b64_index c3 of
                None \<Rightarrow> None
              | Some s3 \<Rightarrow>
                  (if c4 = CHR ''='' then
                     (if cs = []
                      then Some [of_nat (s1 * 4 + s2 div 16), of_nat (s2 mod 16 * 16 + s3 div 4)]
                      else None)
                   else
                     (case (b64_index c4, b64decode cs) of
                        (Some s4, Some bs) \<Rightarrow>
                          Some (of_nat (s1 * 4 + s2 div 16) # of_nat (s2 mod 16 * 16 + s3 div 4)
                                # of_nat (s3 mod 4 * 64 + s4) # bs)
                      | _ \<Rightarrow> None))))
      | _ \<Rightarrow> None)"
| "b64decode _ = None"

definition colorbar_img_str :: "(colorbar_figure \<Rightarrow> 8 word list) \<Rightarrow> string" where
  "colorbar_img_str savefig = ''data:image/png;base64,'' @ b64encode (savefig fig_colorbar)"

section \<open>The callback \<^verbatim>\<open>update_graph\<close> (lines 124 to 147)\<close>

definition update_graph ::
  "('g \<Rightarrow> real \<times> real) \<Rightarrow> (colorbar_figure \<Rightarrow> 8 word list) \<Rightarrow> 'g table \<Rightarrow> string \<Rightarrow> int
     \<Rightarrow> error + ('g figure \<times> string \<times> string)" where
  "update_graph centroid savefig gdf selected_city selected_day =
     (let fig = generate_plot centroid (filtered_data gdf selected_city selected_day);
          img = colorbar_img_str savefig
      in case selected_date selected_day of
           Inl e \<Rightarrow> Inl e
         | Inr s \<Rightarrow> Inr (fig, img, s))"

section \<open>Well-formed dates and a small table\<close>

text \<open>
  \<^verbatim>\<open>datetime.date\<close> and pandas timestamps only hold real calendar days: the month is
  between 1 and 12 and the day between 1 and the length of that month.
\<close>

definition valid_date :: "date \<Rightarrow> bool" where
  "valid_date dt \<longleftrightarrow>
     1 \<le> month dt \<and> month dt \<le> 12 \<and> 1 \<le> day dt \<and> day dt \<le> days_in_month (year dt) (month dt)"

text \<open>
  A four-row table used to run the definitions; a shape is stood for by its centroid.
  The labels start at 10, as they would in a table cut out of a larger one.
\<close>

definition demo_gdf :: "(real \<times> real) table" where
  "demo_gdf =
     [(10, \<lparr>City = ''Howrah'', WARD = ''1'', Area = ''Shibpur'',
            Date = \<lparr>year = 2023, month = 2, day = 14\<rparr>, PM25 = 81.456, geometry = (88.25, 22.5)\<rparr>),
      (11, \<lparr>City = ''Kolkata'', WARD = ''1'', Area = ''Cossipore'',
            Date = \<lparr>year = 2023, month = 2, day = 14\<rparr>, PM25 = 64.5, geometry = (88.5, 22.75)\<rparr>),
      (12, \<lparr>City = ''Kolkata'', WARD = ''2'', Area = ''Sinthi'',
            Date = \<lparr>year = 2023, month = 2, day = 14\<rparr>, PM25 = 130, geometry = (88.25, 22.25)\<rparr>),
      (13, \<lparr>City = ''Kolkata'', WARD = ''1'', Area = ''Cossipore'',
            Date = \<lparr>year = 2023, month = 1, day = 1\<rparr>, PM25 = 19.25, geometry = (88.5, 22.75)\<rparr>)]"

section \<open>The filter keeps exactly the matching rows\<close>

lemma bool_index_map:
  "bool_index gdf (map P gdf) = filter P gdf"
  unfolding bool_index_def by (induction gdf) auto

lemma mask_and_map:
  "mask_and (map P xs) (map Q xs) = map (\<lambda>x. P x \<and> Q x) xs"
  unfolding mask_and_def by (induction xs) auto

lemma filtered_data_filter:
  "filtered_data gdf c d = filter (selected c d) gdf"
proof -
  have "mask_and (City_eq gdf c) (dayofyear_eq gdf d) = map (selected c d) gdf"
    unfolding City_eq_def dayofyear_eq_def mask_and_map
    by (rule map_cong) (auto simp: selected_def)
  then show ?thesis
    unfolding filtered_data_def by (simp add: bool_index_map)
qed

text \<open>
  Claim C1. For every city string and every day-of-year integer, the filter returns exactly
  the rows of the loaded table whose city equals the selected city and whose date has the
  selected day of the year, and no other row.
\<close>

theorem filter_exact:
  "set (filtered_data gdf c d) =
     {ir. ir \<in> set gdf \<and> City (snd ir) = c \<and> dayofyear (Date (snd ir)) = d}"
  unfolding filtered_data_filter by (auto simp: selected_def)

lemmas calendar_defs = dayofyear_def days_before_month_def DAYS_BEFORE_MONTH_def is_leap_def
  valid_date_def days_in_month_def DAYS_IN_MONTH_def

theorem filter_exact_witness:
  "demo_gdf ! 1 \<in> set (filtered_data demo_gdf ''Kolkata'' 45)
   \<and> demo_gdf ! 0 \<notin> set (filtered_data demo_gdf ''Kolkata'' 45)
   \<and> demo_gdf ! 3 \<notin> set (filtered_data demo_gdf ''Kolkata'' 45)"
  unfolding filter_exact [of demo_gdf "''Kolkata''" 45]
  by (simp add: demo_gdf_def calendar_defs)

section \<open>An unmatched selection gives the empty subset\<close>

lemma month_cases:
  "1 \<le> (m::int) \<Longrightarrow> m \<le> 12 \<Longrightarrow>
     m = 1 \<or> m = 2 \<or> m = 3 \<or> m = 4 \<or> m = 5 \<or> m = 6 \<or> m = 7 \<or> m = 8 \<or> m = 9 \<or> m = 10
     \<or> m = 11 \<or> m = 12"
  by arith

lemma dayofyear_bounds:
  assumes "1 \<le> m" "m \<le> 12" "1 \<le> d" "d \<le> days_in_month y m"
  shows "1 \<le> days_before_month y m + d
         \<and> days_before_month y m + d \<le> (if is_leap y then 366 else 365)"
  using month_cases [OF assms(1,2)] assms(3,4)
  unfolding days_before_month_def days_in_month_def DAYS_BEFORE_MONTH_def DAYS_IN_MONTH_def
  by (elim disjE; hypsubst; simp split: if_splits)

lemma dayofyear_range:
  assumes "valid_date dt"
  shows "1 \<le> dayofyear dt \<and> dayofyear dt \<le> (if is_leap (year dt) then 366 else 365)"
  using assms dayofyear_bounds [of "month dt" "day dt" "year dt"]
  unfolding valid_date_def dayofyear_def by blast

text \<open>
  Claim C2. For every selection that no row of the table matches, the filter returns the
  empty subset: in general, for a city name that no row carries, and for day 366 when every
  date of the table lies in a year without a 29th of February. The filter is a function
  of the table and the selection alone: it has no error result, reads nothing else and
  writes nothing.
\<close>

theorem filter_unmatched_empty:
  "((\<forall>ir \<in> set gdf. City (snd ir) \<noteq> c \<or> dayofyear (Date (snd ir)) \<noteq> d)
      \<longrightarrow> filtered_data gdf c d = [])
   \<and> (c \<notin> (\<lambda>ir. City (snd ir)) ` set gdf \<longrightarrow> filtered_data gdf c d = [])
   \<and> ((\<forall>ir \<in> set gdf. valid_date (Date (snd ir)) \<and> \<not> is_leap (year (Date (snd ir))))
      \<longrightarrow> filtered_data gdf c 366 = [])"
proof (intro conjI impI)
  assume "\<forall>ir \<in> set gdf. City (snd ir) \<noteq> c \<or> dayofyear (Date (snd ir)) \<noteq> d"
  then show "filtered_data gdf c d = []"
    unfolding filtered_data_filter by (auto simp: selected_def filter_empty_conv)
next
  assume "c \<notin> (\<lambda>ir. City (snd ir)) ` set gdf"
  then show "filtered_data gdf c d = []"
    unfolding filtered_data_filter by (auto simp: selected_def filter_empty_conv)
next
  assume a: "\<forall>ir \<in> set gdf. valid_date (Date (snd ir)) \<and> \<not> is_leap (year (Date (snd ir)))"
  have "dayofyear (Date (snd ir)) \<noteq> 366" if "ir \<in> set gdf" for ir
    using a that dayofyear_range [of "Date (snd ir)"] by auto
  then show "filtered_data gdf c 366 = []"
    unfolding filtered_data_filter by (auto simp: selected_def filter_empty_conv)
qed

theorem filter_unmatched_empty_witness:
  "filtered_data demo_gdf ''Delhi'' 45 = [] \<and> filtered_data demo_gdf ''Kolkata'' 366 = []
   \<and> filtered_data demo_gdf ''Howrah'' 1 = []"
  using filter_unmatched_empty [of demo_gdf "''Delhi''" 45]
    filter_unmatched_empty [of demo_gdf "''Kolkata''" 366]
    filter_unmatched_empty [of demo_gdf "''Howrah''" 1]
  by (simp add: demo_gdf_def calendar_defs)

section \<open>Row order and index labels\<close>

lemma demo_filtered:
  "filtered_data demo_gdf ''Kolkata'' 45 = [demo_gdf ! 1, demo_gdf ! 2]"
  unfolding filtered_data_filter
  by (simp add: demo_gdf_def selected_def calendar_defs)

text \<open>
  Claim C10. For every selection, the filtered subset is the loaded table with rows left
  out: the kept rows stand in their original relative order and carry the index labels
  they had when the table was loaded, and those labels, in that order, are the location
  keys that the map figure is given.
\<close>

theorem filter_keeps_order_and_labels:
  "subseq (filtered_data gdf c d) gdf
   \<and> subseq (map fst (filtered_data gdf c d)) (map fst gdf)
   \<and> locations (generate_plot centroid (filtered_data gdf c d)) = map fst (filtered_data gdf c d)"
  unfolding filtered_data_filter
  by (simp add: generate_plot_def subseq_map)

theorem filter_keeps_order_and_labels_witness:
  "subseq (filtered_data demo_gdf ''Kolkata'' 45) demo_gdf
   \<and> locations (generate_plot id (filtered_data demo_gdf ''Kolkata'' 45)) = [11, 12]"
  using filter_keeps_order_and_labels [of demo_gdf "''Kolkata''" 45 id]
  by (simp add: demo_filtered) (simp add: demo_gdf_def)

section \<open>Framing of the map\<close>

text \<open>
  Claim C9. For every non-empty subset, the figure asks for the open-street-map tile
  style and the fixed zoom 10.6, is centred at the mean of the centroids of the subset's
  shapes (latitude from the \<open>y\<close> coordinates, longitude from the \<open>x\<close> coordinates, computed
  from the subset at hand), and has the colour scale of the map switched off.
\<close>

theorem map_framing:
  assumes "filtered_gdf \<noteq> []"
  shows "mapbox_style (generate_plot centroid filtered_gdf) = ''open-street-map''
    \<and> zoom (generate_plot centroid filtered_gdf) = 10.6
    \<and> center_lat (generate_plot centroid filtered_gdf) =
        Some ((\<Sum>ir\<leftarrow>filtered_gdf. snd (centroid (geometry (snd ir)))) / real (length filtered_gdf))
    \<and> center_lon (generate_plot centroid filtered_gdf) =
        Some ((\<Sum>ir\<leftarrow>filtered_gdf. fst (centroid (geometry (snd ir)))) / real (length filtered_gdf))
    \<and> \<not> coloraxis_showscale (generate_plot centroid filtered_gdf)"
  using assms by (simp add: generate_plot_def mean_def case_prod_unfold)

theorem map_framing_witness:
  "filtered_data demo_gdf ''Kolkata'' 45 \<noteq> []
   \<and> zoom (generate_plot id (filtered_data demo_gdf ''Kolkata'' 45)) = 10.6
   \<and> center_lat (generate_plot id (filtered_data demo_gdf ''Kolkata'' 45)) = Some 22.5
   \<and> center_lon (generate_plot id (filtered_data demo_gdf ''Kolkata'' 45)) = Some 88.375
   \<and> \<not> coloraxis_showscale (generate_plot id (filtered_data demo_gdf ''Kolkata'' 45))"
proof -
  have ne: "filtered_data demo_gdf ''Kolkata'' 45 \<noteq> []"
    by (simp add: demo_filtered)
  show ?thesis
    using ne map_framing [OF ne, of id]
    by (simp add: demo_filtered) (simp add: demo_gdf_def)
qed

section \<open>The date label\<close>

text \<open>The calendar bounds of \<^verbatim>\<open>datetime.date\<close> decide when the date label can be built.\<close>

lemma ymd2ord_epoch: "ymd2ord \<lparr>year = 2023, month = 1, day = 1\<rparr> = 738521"
  by (simp add: ymd2ord_def days_before_year_def days_before_month_def DAYS_BEFORE_MONTH_def)

lemma selected_date_returns:
  "(\<exists>s. selected_date d = Inr s) \<longleftrightarrow> - 738519 \<le> d \<and> d \<le> 2913539"
  unfolding selected_date_def timedelta_def date_add_def Let_def ymd2ord_epoch MAXORDINAL_def
  by (auto split: sum.splits if_splits)

lemma ord2ymd_2023_unfold:
  assumes "0 \<le> k" "k < 365"
  shows "ord2ymd (738521 + k) =
     (if DAYS_BEFORE_MONTH ((k + 50) div 32) > k
      then \<lparr>year = 2023, month = (k + 50) div 32 - 1,
            day = k - (DAYS_BEFORE_MONTH ((k + 50) div 32) - DAYS_IN_MONTH ((k + 50) div 32 - 1)) + 1\<rparr>
      else \<lparr>year = 2023, month = (k + 50) div 32, day = k - DAYS_BEFORE_MONTH ((k + 50) div 32) + 1\<rparr>)"
proof -
  have a: "(738520 + k) div 146097 = 5" "(738520 + k) mod 146097 = 8035 + k"
    using assms by (auto intro!: int_div_pos_eq int_mod_pos_eq [where q = 5])
  have b: "(8035 + k) div 36524 = 0" "(8035 + k) mod 36524 = 8035 + k"
    using assms by (auto intro!: int_div_pos_eq int_mod_pos_eq [where q = 0])
  have c: "(8035 + k) div 1461 = 5" "(8035 + k) mod 1461 = 730 + k"
    using assms by (auto intro!: int_div_pos_eq int_mod_pos_eq [where q = 5])
  have d: "(730 + k) div 365 = 2" "(730 + k) mod 365 = k"
    using assms by (auto intro!: int_div_pos_eq int_mod_pos_eq [where q = 2])
  have e: "738521 + k - 1 = 738520 + k" by simp
  show ?thesis
    unfolding ord2ymd_def e Let_def a b c d by simp
qed


lemma ord2ymd_2023:
  assumes "0 \<le> k" "k < 365"
  shows "year (ord2ymd (738521 + k)) = 2023 \<and> valid_date (ord2ymd (738521 + k))
         \<and> dayofyear (ord2ymd (738521 + k)) = k + 1"
proof -
  define m where "m = (k + 50) div 32"
  have mb: "1 \<le> m" "m \<le> 12"
    using assms unfolding m_def by arith+
  have kb: "32 * m \<le> k + 50" "k + 50 < 32 * m + 32"
    unfolding m_def by arith+
  have not_leap: "\<not> is_leap 2023"
    by (simp add: is_leap_def)
  note u = ord2ymd_2023_unfold [OF assms, folded m_def]
  from month_cases [OF mb] kb assms show ?thesis
    unfolding u valid_date_def dayofyear_def days_in_month_def days_before_month_def
      DAYS_BEFORE_MONTH_def DAYS_IN_MONTH_def
    by (elim disjE; simp add: not_leap split: if_splits)
qed

lemma pad2_two_digits:
  assumes "1 \<le> d" "d \<le> 31"
  shows "pad2 d = [digit_char (nat d div 10), digit_char (nat d mod 10)]"
proof (cases "d < 10")
  case True
  with assms show ?thesis
    by (simp add: pad2_def str_int_def digit_char_def)
next
  case False
  with assms have "nat d div 10 < 10" "\<not> nat d < 10" by arith+
  with False assms show ?thesis
    by (simp add: pad2_def str_int_def)
qed

lemma days_in_month_le_31: "days_in_month y m \<le> 31"
  by (simp add: days_in_month_def DAYS_IN_MONTH_def)

lemma selected_date_in_2023:
  assumes "1 \<le> d" "d \<le> 365"
  shows "\<exists>dt. date_add \<lparr>year = 2023, month = 1, day = 1\<rparr> (d - 1) = Inr dt
           \<and> valid_date dt \<and> year dt = 2023 \<and> dayofyear dt = d
           \<and> ymd2ord dt = ymd2ord \<lparr>year = 2023, month = 1, day = 1\<rparr> + (d - 1)
           \<and> selected_date d =
               Inr (month_abbr (month dt) @ '' ''
                    @ [digit_char (nat (day dt) div 10), digit_char (nat (day dt) mod 10)]
                    @ '', 2023'')"
proof -
  define dt where "dt = ord2ymd (738521 + (d - 1))"
  have k: "0 \<le> d - 1" "d - 1 < 365" using assms by simp_all
  note p = ord2ymd_2023 [OF k, folded dt_def]
  have add: "date_add \<lparr>year = 2023, month = 1, day = 1\<rparr> (d - 1) = Inr dt"
    using assms by (simp add: date_add_def ymd2ord_epoch MAXORDINAL_def dt_def)
  have td: "timedelta (d - 1) = Inr (d - 1)"
    using assms by (simp add: timedelta_def)
  have ord: "ymd2ord dt = 738521 + (d - 1)"
proof -
    from p have y: "year dt = 2023" and doy: "dayofyear dt = d"
      by simp_all
    from doy have "days_before_month 2023 (month dt) + day dt = d"
      unfolding dayofyear_def y .
    then show ?thesis
      by (simp add: ymd2ord_def days_before_year_def y)
  qed
  have "1 \<le> day dt" "day dt \<le> 31"
    using p days_in_month_le_31 [of "year dt" "month dt"] by (auto simp: valid_date_def)
  note pd = pad2_two_digits [OF this]
  have "selected_date d = Inr (strftime dt)"
    by (simp add: selected_date_def td add)
  also have "strftime dt = month_abbr (month dt) @ '' ''
        @ [digit_char (nat (day dt) div 10), digit_char (nat (day dt) mod 10)] @ '', 2023''"
    using p by (simp add: strftime_def pd str_int_def digit_char_def)
  finally show ?thesis
    using add p ord by (auto simp: ymd2ord_epoch)
qed

lemma selected_date_examples:
  "selected_date 1 = Inr ''Jan 01, 2023''"
  "selected_date 45 = Inr ''Feb 14, 2023''"
  "selected_date 365 = Inr ''Dec 31, 2023''"
  by code_simp+

text \<open>
  Claim C4. For every day of the year from 1 to 365, the date label is the calendar day
  that lies (day - 1) days after January 1, 2023: a valid day of 2023 whose own day of
  the year is the given one, written as the three-letter month name, a space, the day of
  the month in two digits, a comma, a space and \<^verbatim>\<open>2023\<close>. Day 1 gives
  \<^verbatim>\<open>Jan 01, 2023\<close>, day 365 gives \<^verbatim>\<open>Dec 31, 2023\<close> and day 45 gives \<^verbatim>\<open>Feb 14, 2023\<close>.
\<close>

theorem selected_date_calendar:
  assumes "1 \<le> d" "d \<le> 365"
  shows "(\<exists>dt. date_add \<lparr>year = 2023, month = 1, day = 1\<rparr> (d - 1) = Inr dt
           \<and> valid_date dt \<and> year dt = 2023 \<and> dayofyear dt = d
           \<and> ymd2ord dt = ymd2ord \<lparr>year = 2023, month = 1, day = 1\<rparr> + (d - 1)
           \<and> selected_date d =
               Inr (month_abbr (month dt) @ '' ''
                    @ [digit_char (nat (day dt) div 10), digit_char (nat (day dt) mod 10)]
                    @ '', 2023''))
         \<and> selected_date 1 = Inr ''Jan 01, 2023''
         \<and> selected_date 365 = Inr ''Dec 31, 2023''
         \<and> selected_date 45 = Inr ''Feb 14, 2023''"
  using selected_date_in_2023 [OF assms] selected_date_examples by blast

theorem selected_date_calendar_witness:
  "(1::int) \<le> 45 \<and> (45::int) \<le> 365
   \<and> (\<exists>dt. date_add \<lparr>year = 2023, month = 1, day = 1\<rparr> (45 - 1) = Inr dt
           \<and> valid_date dt \<and> year dt = 2023 \<and> dayofyear dt = 45
           \<and> ymd2ord dt = ymd2ord \<lparr>year = 2023, month = 1, day = 1\<rparr> + (45 - 1)
           \<and> selected_date 45 =
               Inr (month_abbr (month dt) @ '' ''
                    @ [digit_char (nat (day dt) div 10), digit_char (nat (day dt) mod 10)]
                    @ '', 2023''))
   \<and> selected_date 45 = Inr ''Feb 14, 2023''"
proof -
  have h1: "(1::int) \<le> 45" and h2: "(45::int) \<le> 365" by simp_all
  from selected_date_calendar [OF h1 h2] h1 h2 show ?thesis by blast
qed

section \<open>The legend image\<close>

subsection \<open>Base64\<close>

lemma length_b64_alphabet: "length b64_alphabet = 64"
  by (simp add: b64_alphabet_def)

lemma distinct_b64_alphabet: "distinct b64_alphabet"
  by (simp add: b64_alphabet_def)

lemma pad_not_in_alphabet: "CHR ''='' \<notin> set b64_alphabet"
  by (simp add: b64_alphabet_def)

lemma b64_char_in_alphabet: "k < 64 \<Longrightarrow> b64_char k \<in> set b64_alphabet"
  by (simp add: b64_char_def length_b64_alphabet)

lemma b64_char_not_pad: "k < 64 \<Longrightarrow> b64_char k \<noteq> CHR ''=''"
  using b64_char_in_alphabet pad_not_in_alphabet by metis

lemma b64_index_char: "k < 64 \<Longrightarrow> b64_index (b64_char k) = Some k"
  unfolding b64_index_def b64_char_def
  using map_of_zip_nth [of b64_alphabet "[0..<64]" k]
  by (simp add: length_b64_alphabet distinct_b64_alphabet)


lemma sextet_bounds:
  fixes a b c :: nat
  assumes "a < 256" "b < 256" "c < 256"
  shows "a div 4 < 64" "a mod 4 * 16 < 64" "a mod 4 * 16 + b div 16 < 64"
    "b mod 16 * 4 < 64" "b mod 16 * 4 + c div 64 < 64" "c mod 64 < 64"
  using assms by arith+

lemma sextet_regroup:
  fixes a b c :: nat
  assumes "a < 256" "b < 256" "c < 256"
  shows "a div 4 * 4 + (a mod 4 * 16) div 16 = a"
    "a div 4 * 4 + (a mod 4 * 16 + b div 16) div 16 = a"
    "(a mod 4 * 16 + b div 16) mod 16 * 16 + (b mod 16 * 4) div 4 = b"
    "(a mod 4 * 16 + b div 16) mod 16 * 16 + (b mod 16 * 4 + c div 64) div 4 = b"
    "(b mod 16 * 4 + c div 64) mod 4 * 64 + c mod 64 = c"
proof -
  have b16: "b div 16 < 16" and c64: "c div 64 < 4"
    using assms by (simp_all add: div_less_iff_less_mult)
  have hi_a: "(a mod 4 * 16 + b div 16) div 16 = a mod 4"
    using b16 by simp
  have lo_a: "(a mod 4 * 16 + b div 16) mod 16 = b div 16"
    using b16 by simp
  have hi_b: "(b mod 16 * 4 + c div 64) div 4 = b mod 16"
    using c64 by simp
  have lo_b: "(b mod 16 * 4 + c div 64) mod 4 = c div 64"
    using c64 by simp
  show "a div 4 * 4 + (a mod 4 * 16) div 16 = a"
    by simp
  show "a div 4 * 4 + (a mod 4 * 16 + b div 16) div 16 = a"
    unfolding hi_a by simp
  show "(a mod 4 * 16 + b div 16) mod 16 * 16 + (b mod 16 * 4) div 4 = b"
    unfolding lo_a by simp
  show "(a mod 4 * 16 + b div 16) mod 16 * 16 + (b mod 16 * 4 + c div 64) div 4 = b"
    unfolding lo_a hi_b by simp
  show "(b mod 16 * 4 + c div 64) mod 4 * 64 + c mod 64 = c"
    unfolding lo_b by simp
qed

lemma unat_byte: "unat (a :: 8 word) < 256"
  using unsigned_less [of a, where ?'a = nat] by simp

lemma set_b64encode: "set (b64encode bs) \<subseteq> set b64_alphabet \<union> {CHR ''=''}"
  by (induction bs rule: b64encode.induct)
    (auto intro!: b64_char_in_alphabet sextet_bounds unat_byte)

lemma length_b64encode: "length (b64encode bs) = 4 * ((length bs + 2) div 3)"
proof (induction bs rule: b64encode.induct)
  case (4 a b c bs)
  have "(length (a # b # c # bs) + 2) div 3 = Suc ((length bs + 2) div 3)"
    by simp
  with 4 show ?case
    by simp
qed simp_all

lemma of_nat_unat_byte: "of_nat (unat a) = (a :: 8 word)"
  by simp

lemmas b64_steps = b64encode.simps b64decode.simps append.simps prod.case option.case
  if_True if_False simp_thms list.inject option.inject of_nat_unat_byte

lemma b64decode_b64encode: "b64decode (b64encode bs) = Some bs"
proof (induction bs rule: b64encode.induct)
  case 1
  show ?case by simp
next
  case (2 a)
  note sb = sextet_bounds [OF unat_byte [of a] unat_byte [of a] unat_byte [of a]]
  note rg = sextet_regroup [OF unat_byte [of a] unat_byte [of a] unat_byte [of a]]
  show ?case
    by (simp only: b64_steps b64_index_char sb rg)
next
  case (3 a b)
  note sb = sextet_bounds [OF unat_byte [of a] unat_byte [of b] unat_byte [of b]]
  note rg = sextet_regroup [OF unat_byte [of a] unat_byte [of b] unat_byte [of b]]
  show ?case
    by (simp only: b64_steps b64_index_char b64_char_not_pad sb rg)
next
  case (4 a b c bs)
  note sb = sextet_bounds [OF unat_byte [of a] unat_byte [of b] unat_byte [of c]]
  note rg = sextet_regroup [OF unat_byte [of a] unat_byte [of b] unat_byte [of c]]
  show ?case
    by (simp only: b64_steps b64_index_char b64_char_not_pad sb rg 4)
qed

lemma b64encode_inj: "b64encode xs = b64encode ys \<Longrightarrow> xs = ys"
  by (metis b64decode_b64encode option.inject)

subsection \<open>What the callback returns as the legend\<close>

lemma update_graph_Inr:
  "update_graph centroid savefig gdf c d = Inr (fig, img, s) \<longleftrightarrow>
     fig = generate_plot centroid (filtered_data gdf c d) \<and> img = colorbar_img_str savefig
     \<and> selected_date d = Inr s"
  by (auto simp: update_graph_def Let_def split: sum.splits)

text \<open>
  Claim C6. The legend image that the callback returns does not depend on the selected
  city or the selected day: two runs with any two selections (and even two tables) that
  both return give the same image, and every day for which the date label exists does
  return, with the image built from the constant colour-bar description alone. Two
  renders give the same payload exactly when the renderer writes the same bytes for that
  description. That matplotlib writes the same bytes for the same description is the
  reading of \<open>savefig\<close> as a function.
\<close>

theorem legend_independent_of_selection:
  "(update_graph centroid1 savefig gdf1 c1 d1 = Inr (fig1, img1, s1)
      \<and> update_graph centroid2 savefig gdf2 c2 d2 = Inr (fig2, img2, s2) \<longrightarrow> img1 = img2)
   \<and> (- 738519 \<le> d1 \<and> d1 \<le> 2913539 \<longrightarrow>
        (\<exists>fig s. update_graph centroid1 savefig gdf1 c1 d1 = Inr (fig, colorbar_img_str savefig, s)))
   \<and> (colorbar_img_str savefig = colorbar_img_str savefig'
        \<longleftrightarrow> savefig fig_colorbar = savefig' fig_colorbar)"
proof (intro conjI impI)
  assume "update_graph centroid1 savefig gdf1 c1 d1 = Inr (fig1, img1, s1)
      \<and> update_graph centroid2 savefig gdf2 c2 d2 = Inr (fig2, img2, s2)"
  then show "img1 = img2"
    by (simp add: update_graph_Inr)
next
  assume "- 738519 \<le> d1 \<and> d1 \<le> 2913539"
  then obtain s where "selected_date d1 = Inr s"
    using selected_date_returns [of d1] by blast
  then show "\<exists>fig s. update_graph centroid1 savefig gdf1 c1 d1 = Inr (fig, colorbar_img_str savefig, s)"
    by (simp add: update_graph_Inr)
next
  show "colorbar_img_str savefig = colorbar_img_str savefig'
        \<longleftrightarrow> savefig fig_colorbar = savefig' fig_colorbar"
    unfolding colorbar_img_str_def using b64encode_inj by auto
qed

theorem legend_independent_of_selection_witness:
  "update_graph id (\<lambda>_. [0x89, 0x50, 0x4E, 0x47]) demo_gdf ''Howrah'' 1 =
     Inr (generate_plot id (filtered_data demo_gdf ''Howrah'' 1), ''data:image/png;base64,iVBORw=='', ''Jan 01, 2023'')
   \<and> update_graph id (\<lambda>_. [0x89, 0x50, 0x4E, 0x47]) demo_gdf ''Kolkata'' 45 =
     Inr (generate_plot id (filtered_data demo_gdf ''Kolkata'' 45), ''data:image/png;base64,iVBORw=='', ''Feb 14, 2023'')
   \<and> (\<exists>fig s. update_graph id (\<lambda>_. [0x89, 0x50, 0x4E, 0x47]) demo_gdf ''Howrah'' 1 =
        Inr (fig, colorbar_img_str (\<lambda>_. [0x89, 0x50, 0x4E, 0x47]), s))"
proof -
  let ?sf = "\<lambda>_ :: colorbar_figure. [0x89, 0x50, 0x4E, 0x47 :: 8 word]"
  have img: "colorbar_img_str ?sf = ''data:image/png;base64,iVBORw==''"
    by (simp add: colorbar_img_str_def b64_char_def b64_alphabet_def)
  have r1: "update_graph id ?sf demo_gdf ''Howrah'' 1 =
     Inr (generate_plot id (filtered_data demo_gdf ''Howrah'' 1), ''data:image/png;base64,iVBORw=='', ''Jan 01, 2023'')"
    by (simp add: update_graph_Inr img selected_date_examples)
  have r2: "update_graph id ?sf demo_gdf ''Kolkata'' 45 =
     Inr (generate_plot id (filtered_data demo_gdf ''Kolkata'' 45), ''data:image/png;base64,iVBORw=='', ''Feb 14, 2023'')"
    by (simp add: update_graph_Inr img selected_date_examples)
  have range: "- 738519 \<le> (1::int) \<and> (1::int) \<le> 2913539"
    by simp
  note t = legend_independent_of_selection [where ?centroid1.0 = id and savefig = ?sf
      and ?gdf1.0 = demo_gdf and ?c1.0 = "''Howrah''" and ?d1.0 = 1]
  have e: "\<exists>fig s. update_graph id ?sf demo_gdf ''Howrah'' 1 = Inr (fig, colorbar_img_str ?sf, s)"
    by (rule t [THEN conjunct2, THEN conjunct1, THEN mp, OF range])
  show ?thesis
    by (intro conjI r1 r2 e)
qed

text \<open>
  Claim C7. For every interaction that returns, the legend is the text
  \<^verbatim>\<open>data:image/png;base64,\<close> followed by the base64 encoding of the PNG bytes that
  matplotlib wrote into memory for a vertical colour bar with both ends extended, labelled
  \<^verbatim>\<open>PM 2.5(\<close>, the unit and \<^verbatim>\<open>)\<close>. The payload uses only the base64 alphabet and
  padding, has four characters for every three bytes, and decodes to exactly those bytes,
  so the URI carries the whole image.
\<close>

theorem legend_inline_png:
  assumes "update_graph centroid savefig gdf c d = Inr (fig, img, s)"
  shows "img = ''data:image/png;base64,'' @ b64encode (savefig fig_colorbar)
    \<and> format fig_colorbar = ''png''
    \<and> orientation fig_colorbar = ''vertical''
    \<and> extend_ends fig_colorbar = ''both''
    \<and> label fig_colorbar = ''PM 2.5('' @ [CHR 0xC2, CHR 0xB5] @ ''g/m3)''
    \<and> cmap fig_colorbar = ''jet'' \<and> vmin fig_colorbar = 20 \<and> vmax fig_colorbar = 120
    \<and> set (drop 22 img) \<subseteq> set b64_alphabet \<union> {CHR ''=''}
    \<and> length (drop 22 img) = 4 * ((length (savefig fig_colorbar) + 2) div 3)
    \<and> b64decode (drop 22 img) = Some (savefig fig_colorbar)"
proof -
  from assms have img: "img = ''data:image/png;base64,'' @ b64encode (savefig fig_colorbar)"
    by (simp add: update_graph_Inr colorbar_img_str_def)
  have payload: "drop 22 img = b64encode (savefig fig_colorbar)"
    unfolding img by simp
  have described: "format fig_colorbar = ''png'' \<and> orientation fig_colorbar = ''vertical''
    \<and> extend_ends fig_colorbar = ''both''
    \<and> label fig_colorbar = ''PM 2.5('' @ [CHR 0xC2, CHR 0xB5] @ ''g/m3)''
    \<and> cmap fig_colorbar = ''jet'' \<and> vmin fig_colorbar = 20 \<and> vmax fig_colorbar = 120"
    by (simp add: fig_colorbar_def)
  show ?thesis
    unfolding payload
    using img described set_b64encode [of "savefig fig_colorbar"]
    by (simp add: length_b64encode b64decode_b64encode)
qed

theorem legend_inline_png_witness:
  "update_graph id (\<lambda>_. [0x89, 0x50, 0x4E, 0x47]) demo_gdf ''Kolkata'' 45 =
     Inr (generate_plot id (filtered_data demo_gdf ''Kolkata'' 45), ''data:image/png;base64,iVBORw=='', ''Feb 14, 2023'')
   \<and> ''data:image/png;base64,iVBORw=='' = ''data:image/png;base64,'' @ b64encode [0x89, 0x50, 0x4E, 0x47]"
proof -
  let ?sf = "\<lambda>_ :: colorbar_figure. [0x89, 0x50, 0x4E, 0x47 :: 8 word]"
  have img: "colorbar_img_str ?sf = ''data:image/png;base64,iVBORw==''"
    by (simp add: colorbar_img_str_def b64_char_def b64_alphabet_def)
  have r: "update_graph id ?sf demo_gdf ''Kolkata'' 45 =
     Inr (generate_plot id (filtered_data demo_gdf ''Kolkata'' 45), ''data:image/png;base64,iVBORw=='', ''Feb 14, 2023'')"
    by (simp add: update_graph_Inr img selected_date_examples)
  have c: "''data:image/png;base64,iVBORw=='' = ''data:image/png;base64,'' @ b64encode [0x89, 0x50, 0x4E, 0x47]"
    using legend_inline_png [OF r] by (rule conjunct1)
  show ?thesis
    by (rule conjI [OF r c])
qed

section \<open>Polygons, location keys and hover rows\<close>

subsection \<open>The decimal string of a label determines the label\<close>

declare digits.simps [simp del]










subsection \<open>What the figure holds for each record\<close>






end
